theory Spec2Isabelle
  imports Main "HOL-Library.List_Lexorder" "HOL-Library.Sublist" "HOL-Library.Multiset"
begin

section \<open>Strings\<close>

text \<open>
  A Python \<open>str\<close> is a sequence of Unicode code points: slicing, \<open>len\<close>, the regular
  expression engine and the comparison used by \<open>sorted\<close> all work on code points. A string
  is therefore a list of code points (natural numbers), ordered lexicographically
  (\<open>List_Lexorder\<close>: a proper prefix is smaller, otherwise the first differing code point
  decides), which is Python's order on \<open>str\<close>.
\<close>

type_synonym ustring = "nat list"

definition ustr :: "string \<Rightarrow> ustring" where
  \<comment> \<open>an ASCII literal of the source, as code points\<close>
  "ustr s = map of_char s"

fun digits10 :: "nat \<Rightarrow> ustring" where
  "digits10 n = (if n < 10 then [48 + n] else digits10 (n div 10) @ [48 + n mod 10])"

declare digits10.simps [simp del]

definition str_int :: "int \<Rightarrow> ustring" where
  \<comment> \<open>\<open>str(i)\<close> of a Python int, as the f-strings of the source format it\<close>
  "str_int i = (if i < 0 then 45 # digits10 (nat (- i)) else digits10 (nat i))"

subsection \<open>class Colors\<close>

definition GREEN :: ustring where "GREEN = 27 # ustr ''[92m''"
definition YELLOW :: ustring where "YELLOW = 27 # ustr ''[93m''"
definition RED :: ustring where "RED = 27 # ustr ''[91m''"
definition BLUE :: ustring where "BLUE = 27 # ustr ''[94m''"
definition RESET :: ustring where "RESET = 27 # ustr ''[0m''"

section \<open>The regular expression \<open>https?://[^\s)\]]+\<close>\<close>

text \<open>
  The pattern is a \<open>str\<close> pattern, so \<open>\s\<close> is Unicode whitespace: the code points for
  which \<open>str.isspace\<close> holds.
\<close>

definition is_space :: "nat \<Rightarrow> bool" where
  "is_space c \<longleftrightarrow>
     (9 \<le> c \<and> c \<le> 13) \<or> (28 \<le> c \<and> c \<le> 32) \<or> c = 133 \<or> c = 160 \<or> c = 5760 \<or>
     (8192 \<le> c \<and> c \<le> 8202) \<or> c = 8232 \<or> c = 8233 \<or> c = 8239 \<or> c = 8287 \<or> c = 12288"

definition url_char :: "nat \<Rightarrow> bool" where
  \<comment> \<open>the class \<open>[^\s)\]]\<close>: anything but whitespace, \<open>)\<close> (41) and \<open>]\<close> (93)\<close>
  "url_char c \<longleftrightarrow> \<not> is_space c \<and> c \<noteq> 41 \<and> c \<noteq> 93"

fun lit :: "ustring \<Rightarrow> ustring \<Rightarrow> ustring option" where
  \<comment> \<open>match a literal at the head of the input; the result is the input left over\<close>
  "lit [] s = Some s"
| "lit (p # ps) [] = None"
| "lit (p # ps) (c # cs) = (if p = c then lit ps cs else None)"

definition match_tail :: "ustring \<Rightarrow> ustring option" where
  \<comment> \<open>\<open>://[^\s)\]]+\<close>: the greedy \<open>+\<close> is last in the pattern, so it takes every
      character of the class that follows and needs at least one\<close>
  "match_tail s =
     (case lit (ustr ''://'') s of
        None \<Rightarrow> None
      | Some r \<Rightarrow> if takeWhile url_char r = [] then None else Some (dropWhile url_char r))"

definition match_here :: "ustring \<Rightarrow> ustring option" where
  \<comment> \<open>the whole pattern anchored at the head of the input: \<open>http\<close>, then the greedy
      \<open>s?\<close> (first with the \<open>s\<close>, and on failure of the rest without it), then the tail\<close>
  "match_here s =
     (case lit (ustr ''http'') s of
        None \<Rightarrow> None
      | Some r \<Rightarrow>
          (case (case lit (ustr ''s'') r of None \<Rightarrow> None | Some r' \<Rightarrow> match_tail r') of
             Some rest \<Rightarrow> Some rest
           | None \<Rightarrow> match_tail r))"

lemma lit_length: "lit p s = Some r \<Longrightarrow> length r + length p = length s"
  by (induction p s rule: lit.induct) (auto split: if_splits)

lemma match_tail_length: "match_tail s = Some r \<Longrightarrow> length r < length s"
proof -
  assume a: "match_tail s = Some r"
  then obtain t where t: "lit (ustr ''://'') s = Some t" and r: "r = dropWhile url_char t"
    by (auto simp: match_tail_def split: option.splits if_splits)
  have "length r \<le> length t"
    unfolding r by (rule length_dropWhile_le)
  moreover have "length t < length s"
    using lit_length [OF t] by (simp add: ustr_def)
  ultimately show ?thesis by simp
qed

lemma match_here_length: "match_here s = Some r \<Longrightarrow> length r < length s"
proof -
  assume a: "match_here s = Some r"
  then obtain t where t: "lit (ustr ''http'') s = Some t"
    by (auto simp: match_here_def split: option.splits)
  have ts: "length t < length s"
    using lit_length [OF t] by (simp add: ustr_def)
  from a t consider (with_s) t' where "lit (ustr ''s'') t = Some t'" "match_tail t' = Some r"
    | (without_s) "match_tail t = Some r"
    by (auto simp: match_here_def split: option.splits)
  then show ?thesis
  proof cases
    case with_s
    then show ?thesis
      using lit_length [of "ustr ''s''" t t'] match_tail_length [of t' r] ts by simp
  next
    case without_s
    then show ?thesis
      using match_tail_length [of t r] ts by simp
  qed
qed

function findall :: "ustring \<Rightarrow> ustring list" where
  \<comment> \<open>\<open>url_pattern.findall(content)\<close>: scan from the left; a match is reported and the scan
      resumes where it ended, otherwise the scan moves one character on\<close>
  "findall [] = []"
| "findall (c # cs) =
     (case match_here (c # cs) of
        Some rest \<Rightarrow> take (length (c # cs) - length rest) (c # cs) # findall rest
      | None \<Rightarrow> findall cs)"
  by pat_completeness auto
termination
  by (relation "measure length") (auto dest: match_here_length)

section \<open>extract_urls_from_file\<close>

text \<open>
  What \<open>open(filepath, 'r', encoding='utf-8')\<close> followed by \<open>f.read()\<close> does is a
  parameter of the model: the text of the file, \<open>FileNotFoundError\<close>, or any other
  exception (permissions, a directory, undecodable bytes), which carries its message.
\<close>

datatype read_result = Content ustring | FileNotFound | ReadFailure ustring

text \<open>
  \<open>list(set(urls))\<close> lists the distinct matches in an order that Python does not fix
  (string hashes are randomised per process). \<open>set_listing S\<close> is every list it may be.
\<close>

definition set_listing :: "'a set \<Rightarrow> 'a list set" where
  "set_listing S = {ys. distinct ys \<and> set ys = S}"

definition extract_urls :: "ustring \<Rightarrow> ustring list" where
  \<comment> \<open>\<open>sorted(list(set(url_pattern.findall(content))))\<close>\<close>
  "extract_urls content = sorted_list_of_set (set (findall content))"

text \<open>
  A function that prints and may leave through \<open>sys.exit\<close> returns the lines it printed
  (one per \<open>print\<close> call) and either the exit status or its value.
\<close>

datatype 'a completion = SysExit int | Return 'a

definition extract_urls_from_file ::
    "(ustring \<Rightarrow> read_result) \<Rightarrow> ustring \<Rightarrow> ustring list \<times> ustring list completion" where
  "extract_urls_from_file read_file filepath =
     (case read_file filepath of
        Content content \<Rightarrow> ([], Return (extract_urls content))
      | FileNotFound \<Rightarrow>
          ([RED @ ustr ''Erro: O arquivo '' @ [39] @ filepath @ [39] @ ustr '' n'' @ [227] @
            ustr ''o foi encontrado.'' @ RESET], SysExit 1)
      | ReadFailure e \<Rightarrow>
          ([RED @ ustr ''Erro ao ler o arquivo: '' @ e @ RESET], SysExit 1))"

section \<open>check_url_status\<close>

text \<open>
  The exceptions (subclasses of \<open>Exception\<close>) that matter to the handlers of the source,
  each with its \<open>str(e)\<close>: \<open>Timeout\<close> is any instance of \<open>requests.Timeout\<close>,
  \<open>RequestException\<close> any other instance of \<open>requests.RequestException\<close>,
  \<open>ValueError\<close> and \<open>OtherException\<close> are outside the \<open>requests\<close> hierarchy.
  What \<open>requests.head\<close> does for an address and a timeout is a parameter: a final
  response (status code and reason phrase) or a raised exception.
\<close>

datatype exn = Timeout ustring | RequestException ustring | ValueError ustring
  | OtherException ustring

fun str_exn :: "exn \<Rightarrow> ustring" where
  "str_exn (Timeout m) = m"
| "str_exn (RequestException m) = m"
| "str_exn (ValueError m) = m"
| "str_exn (OtherException m) = m"

datatype head_result = Response int ustring | Raises exn

type_synonym outcome = "ustring \<times> int \<times> ustring"

definition check_url_status ::
    "(ustring \<Rightarrow> int \<Rightarrow> head_result) \<Rightarrow> ustring \<Rightarrow> int \<Rightarrow> exn + outcome" where
  \<comment> \<open>\<open>Inl\<close>: the exception leaves the function; \<open>Inr\<close>: the returned tuple\<close>
  "check_url_status head url timeout =
     (case head url timeout of
        Response status_code reason \<Rightarrow>
          Inr (url, status_code,
               if 200 \<le> status_code \<and> status_code < 300 then reason
               else ustr ''Client/Server Error'')
      | Raises (Timeout m) \<Rightarrow> Inr (url, 408, ustr ''Timeout'')
      | Raises (RequestException m) \<Rightarrow>
          Inr (url, 0, ustr ''Connection Error: '' @ take 50 m @ ustr ''...'')
      | Raises e \<Rightarrow> Inl e)"

section \<open>print_result\<close>

definition print_result :: "ustring \<Rightarrow> int \<Rightarrow> ustring \<Rightarrow> ustring" where
  \<comment> \<open>the line printed\<close>
  "print_result url status_code status_text =
     (let label = ustr ''['' @ str_int status_code @ ustr '' '' @ status_text @ ustr '']'';
          status_colored =
            (if 200 \<le> status_code \<and> status_code < 300 then GREEN @ label @ RESET
             else if (400 \<le> status_code \<and> status_code < 500) \<or> status_code = 408
               then YELLOW @ label @ RESET
             else RED @ label @ RESET)
      in status_colored @ ustr '' '' @ url)"

section \<open>main\<close>

text \<open>
  The arguments as \<open>argparse\<close> hands them over: \<open>-w\<close> has \<open>type=int\<close>, which accepts
  every integer literal, and main never looks at the value before it builds the pool.
\<close>

record args =
  filepath :: ustring
  workers :: int

text \<open>
  The world outside the program: the file system, the network behind \<open>requests.head\<close>,
  and the order in which the futures complete (see \<open>as_completed\<close>).
\<close>

record env =
  env_read :: "ustring \<Rightarrow> read_result"
  env_head :: "ustring \<Rightarrow> int \<Rightarrow> head_result"
  env_order :: "nat list"

record summary =
  good :: int
  bad :: int
  error :: int

text \<open>
  How the process ends: \<open>sys.exit(n)\<close>, an exception that nothing catches (a traceback
  and exit status 1), or main returning (exit status 0).
\<close>

datatype ending = Exited int | Crashed exn | Finished

fun exit_status :: "ending \<Rightarrow> int" where
  "exit_status (Exited n) = n"
| "exit_status (Crashed e) = 1"
| "exit_status Finished = 0"

text \<open>
  What a run of main leaves behind: the lines printed, the addresses for which
  \<open>requests.head\<close> was called, how the process ended, and the summary printed at the end
  (\<open>None\<close> when the process ended before that).
\<close>

record run =
  stdout :: "ustring list"
  requests_made :: "ustring list"
  status :: ending
  final_summary :: "summary option"

function as_completed :: "nat list \<Rightarrow> 'a list \<Rightarrow> 'a list" where
  \<comment> \<open>\<open>as_completed\<close> yields every future once, in completion order, which the program does
      not control: each number of the order picks, among the futures still pending, the
      one that completes next; when the numbers run out the rest complete as submitted\<close>
  "as_completed order [] = []"
| "as_completed [] (f # fs) = f # fs"
| "as_completed (k # ks) (f # fs) =
     (let i = k mod length (f # fs)
      in (f # fs) ! i # as_completed ks (take i (f # fs) @ drop (Suc i) (f # fs)))"
  by pat_completeness auto
termination
  by (relation "measure (\<lambda>(order, fs). length fs)") auto

definition tally :: "int \<Rightarrow> summary \<Rightarrow> summary" where
  \<comment> \<open>the \<open>if\<close>/\<open>elif\<close>/\<open>else\<close> that updates the summary\<close>
  "tally status_code s =
     (if 200 \<le> status_code \<and> status_code < 300 then s\<lparr>good := good s + 1\<rparr>
      else if status_code > 0 then s\<lparr>bad := bad s + 1\<rparr>
      else s\<lparr>error := error s + 1\<rparr>)"

definition handle_future ::
    "(exn + outcome) \<times> ustring \<Rightarrow> ustring list \<times> summary \<Rightarrow> ustring list \<times> summary" where
  \<comment> \<open>the body of the \<open>for\<close> loop, on one completed future and the address it is filed
      under in \<open>future_to_url\<close>: \<open>future.result()\<close> returns the tuple or raises what the
      task raised\<close>
  "handle_future fu st =
     (case (fu, st) of
        ((Inr (url, status_code, status_text), _), (out, s)) \<Rightarrow>
          (out @ [print_result url status_code status_text], tally status_code s)
      | ((Inl e, url), (out, s)) \<Rightarrow>
          (out @ [RED @ ustr ''[ERRO] Exce'' @ [231, 227] @ ustr ''o inesperada ao verificar '' @
                  url @ ustr '': '' @ str_exn e @ RESET],
           s\<lparr>error := error s + 1\<rparr>))"

definition print_summary :: "ustring list \<Rightarrow> summary \<Rightarrow> ustring list" where
  "print_summary urls s =
     [[10] @ BLUE @ ustr ''--- Resumo da Verifica'' @ [231, 227] @ ustr ''o ---'' @ RESET,
      ustr ''Total de links verificados: '' @ str_int (int (length urls)),
      GREEN @ ustr ''Links bons: '' @ str_int (good s) @ RESET,
      YELLOW @ ustr ''Links quebrados/redirecionados: '' @ str_int (bad s) @ RESET,
      RED @ ustr ''Erros de conex'' @ [227] @ ustr ''o: '' @ str_int (error s) @ RESET,
      BLUE @ ustr ''-----------------------------'' @ RESET]"

definition main :: "args \<Rightarrow> env \<Rightarrow> run" where
  "main a e =
     (let banner = BLUE @ ustr ''--- Iniciando Verifica'' @ [231, 227] @ ustr ''o de Links para '' @
                   [39] @ filepath a @ [39] @ ustr '' ---'' @ [10] @ RESET
      in case extract_urls_from_file (env_read e) (filepath a) of
           (printed, SysExit n) \<Rightarrow>
             \<lparr>stdout = banner # printed, requests_made = [], status = Exited n,
              final_summary = None\<rparr>
         | (printed, Return urls) \<Rightarrow>
             if urls = [] then
               \<lparr>stdout = banner # printed @
                   [YELLOW @ ustr ''Nenhum URL encontrado no arquivo.'' @ RESET],
                requests_made = [], status = Exited 0, final_summary = None\<rparr>
             else
               let found = ustr ''Encontrados '' @ str_int (int (length urls)) @
                           ustr '' URLs '' @ [250] @ ustr ''nicos. Verificando...'' @ [10]
               in if workers a \<le> 0 then
                    \<comment> \<open>\<open>ThreadPoolExecutor(max_workers=...)\<close> raises for a value below 1\<close>
                    \<lparr>stdout = banner # printed @ [found], requests_made = [],
                     status = Crashed (ValueError (ustr ''max_workers must be greater than 0'')),
                     final_summary = None\<rparr>
                  else
                    let future_to_url = map (\<lambda>url. (check_url_status (env_head e) url 10, url)) urls;
                        (out, s) = fold handle_future (as_completed (env_order e) future_to_url)
                                     ([], \<lparr>good = 0, bad = 0, error = 0\<rparr>)
                    in \<lparr>stdout = banner # printed @ [found] @ out @ print_summary urls s,
                        requests_made = urls, status = Finished, final_summary = Some s\<rparr>)"

section \<open>Notions used in the statements\<close>

definition total :: "summary \<Rightarrow> int" where
  \<comment> \<open>the three buckets together\<close>
  "total s = good s + bad s + error s"

definition is_request_exception :: "exn \<Rightarrow> bool" where
  \<comment> \<open>the exceptions that the two handlers of \<open>check_url_status\<close> catch\<close>
  "is_request_exception e =
     (case e of Timeout m \<Rightarrow> True | RequestException m \<Rightarrow> True | _ \<Rightarrow> False)"

definition well_formed :: "ustring \<Rightarrow> bool" where
  "well_formed u \<longleftrightarrow>
     (prefix (ustr ''http://'') u \<or> prefix (ustr ''https://'') u) \<and>
     (\<forall>c\<in>set u. \<not> is_space c \<and> c \<noteq> 41 \<and> c \<noteq> 93)"

subsection \<open>Sample documents and a sample world\<close>

definition demo_doc :: ustring where
  "demo_doc = ustr ''[b](http://b.example) (https://a.example/x) http://b.example''"

definition demo_read :: "ustring \<Rightarrow> read_result" where
  "demo_read path = (if path = ustr ''README.md'' then Content demo_doc else FileNotFound)"

definition faulty_head :: "ustring \<Rightarrow> int \<Rightarrow> head_result" where
  "faulty_head url timeout = Raises (OtherException (ustr ''unexpected''))"

definition refusing_head :: "ustring \<Rightarrow> int \<Rightarrow> head_result" where
  "refusing_head url timeout =
     Raises (RequestException
       (ustr ''Failed to establish a new connection: [Errno 111] Connection refused''))"

definition scenario_head :: "ustring \<Rightarrow> int \<Rightarrow> head_result" where
  "scenario_head url timeout =
     (if url = ustr ''https://good.example'' then Response 200 (ustr ''OK'')
      else if url = ustr ''http://missing.example'' then Response 404 (ustr ''Not Found'')
      else if url = ustr ''https://slow.example'' then Raises (Timeout (ustr ''timed out''))
      else Raises (RequestException (ustr ''Name or service not known'')))"

definition scenario_doc :: ustring where
  "scenario_doc = ustr ''https://good.example http://missing.example https://slow.example''"

definition scenario_read :: "ustring \<Rightarrow> read_result" where
  "scenario_read path =
     (if path = ustr ''links.md'' then Content scenario_doc
      else if path = ustr ''empty.md'' then Content (ustr ''no links here'')
      else if path = ustr ''docs'' then ReadFailure (ustr ''[Errno 21] Is a directory'')
      else FileNotFound)"

definition scenario_env :: env where
  "scenario_env = \<lparr>env_read = scenario_read, env_head = scenario_head, env_order = [2, 0]\<rparr>"

definition scenario_args :: args where
  "scenario_args = \<lparr>filepath = ustr ''links.md'', workers = 1\<rparr>"

section \<open>Extraction\<close>

lemma lit_iff: "lit p s = Some r \<longleftrightarrow> s = p @ r"
  by (induction p s rule: lit.induct) auto

lemma match_tail_shape:
  assumes "match_tail s = Some r"
  shows "\<exists>b. b \<noteq> [] \<and> (\<forall>c\<in>set b. url_char c) \<and> s = ustr ''://'' @ b @ r"
proof -
  from assms obtain t where t: "lit (ustr ''://'') s = Some t"
    and ne: "takeWhile url_char t \<noteq> []" and r: "r = dropWhile url_char t"
    by (auto simp: match_tail_def split: option.splits if_splits)
  have "s = ustr ''://'' @ takeWhile url_char t @ r"
    using t r by (simp add: lit_iff)
  moreover have "\<forall>c\<in>set (takeWhile url_char t). url_char c"
    by (auto dest: set_takeWhileD)
  ultimately show ?thesis using ne by blast
qed

lemma match_here_shape:
  assumes "match_here s = Some r"
  shows "\<exists>p b. (p = ustr ''http://'' \<or> p = ustr ''https://'') \<and> b \<noteq> [] \<and>
           (\<forall>c\<in>set b. url_char c) \<and> s = p @ b @ r"
proof -
  from assms obtain t where t: "s = ustr ''http'' @ t"
    by (auto simp: match_here_def lit_iff split: option.splits)
  from assms t consider (with_s) t' where "t = ustr ''s'' @ t'" "match_tail t' = Some r"
    | (without_s) "match_tail t = Some r"
    by (auto simp: match_here_def lit_iff split: option.splits)
  then show ?thesis
  proof cases
    case with_s
    from match_tail_shape [OF with_s(2)] obtain b where
      "b \<noteq> []" "\<forall>c\<in>set b. url_char c" "t' = ustr ''://'' @ b @ r" by blast
    then have "s = ustr ''https://'' @ b @ r"
      using t with_s(1) by (simp add: ustr_def)
    then show ?thesis using \<open>b \<noteq> []\<close> \<open>\<forall>c\<in>set b. url_char c\<close> by blast
  next
    case without_s
    from match_tail_shape [OF without_s] obtain b where
      "b \<noteq> []" "\<forall>c\<in>set b. url_char c" "t = ustr ''://'' @ b @ r" by blast
    then have "s = ustr ''http://'' @ b @ r"
      using t by (simp add: ustr_def)
    then show ?thesis using \<open>b \<noteq> []\<close> \<open>\<forall>c\<in>set b. url_char c\<close> by blast
  qed
qed

lemma scheme_chars:
  "\<forall>c\<in>set (ustr ''https://''). url_char c"
  "\<forall>c\<in>set (ustr ''http://''). url_char c"
  by (simp_all add: ustr_def url_char_def is_space_def)

lemma matched_well_formed:
  assumes "match_here s = Some r"
  shows "well_formed (take (length s - length r) s)"
proof -
  from match_here_shape [OF assms] obtain p b where
    p: "p = ustr ''http://'' \<or> p = ustr ''https://''" and b: "\<forall>c\<in>set b. url_char c"
    and s: "s = p @ b @ r" by blast
  have tk: "take (length s - length r) s = p @ b"
    unfolding s by simp
  have "\<forall>c\<in>set (p @ b). url_char c"
    using p b scheme_chars by auto
  then show ?thesis
    unfolding tk well_formed_def using p by (auto simp: url_char_def)
qed

lemma findall_well_formed: "u \<in> set (findall s) \<Longrightarrow> well_formed u"
proof (induction s rule: findall.induct)
  case 1
  then show ?case by simp
next
  case (2 c cs)
  show ?case
  proof (cases "match_here (c # cs)")
    case None
    with 2 show ?thesis by simp
  next
    case (Some rest)
    with 2 matched_well_formed [OF Some] show ?thesis by auto
  qed
qed

lemma extract_urls_code: "extract_urls content = sort (remdups (findall content))"
  by (simp add: extract_urls_def sorted_list_of_set_sort_remdups)

lemma set_extract_urls: "set (extract_urls content) = set (findall content)"
  by (simp add: extract_urls_def)

lemma sort_listing:
  assumes "ys \<in> set_listing (set xs)"
  shows "sort ys = sorted_list_of_set (set xs)"
proof -
  from assms have d: "distinct ys" and s: "set ys = set xs"
    by (simp_all add: set_listing_def)
  have "sorted_list_of_set (set ys) = sort (remdups ys)"
    by (rule sorted_list_of_set_sort_remdups)
  with d s show ?thesis by (simp add: distinct_remdups_id)
qed

lemma findall_demo_doc:
  "findall demo_doc = [ustr ''http://b.example'', ustr ''https://a.example/x'', ustr ''http://b.example'']"
  by (simp add: demo_doc_def ustr_def match_here_def match_tail_def url_char_def is_space_def)

lemma extract_demo_doc:
  "extract_urls demo_doc = [ustr ''http://b.example'', ustr ''https://a.example/x'']"
  by (simp add: extract_urls_code findall_demo_doc) (simp add: ustr_def)

lemma extract_scenario_doc:
  "extract_urls scenario_doc =
     [ustr ''http://missing.example'', ustr ''https://good.example'', ustr ''https://slow.example'']"
proof -
  have "findall scenario_doc =
     [ustr ''https://good.example'', ustr ''http://missing.example'', ustr ''https://slow.example'']"
    by (simp add: scenario_doc_def ustr_def match_here_def match_tail_def url_char_def is_space_def)
  then show ?thesis
    by (simp add: extract_urls_code) (simp add: ustr_def)
qed

lemma extract_no_links: "extract_urls (ustr ''no links here'') = []"
  by (simp add: extract_urls_code ustr_def match_here_def)

text \<open>
  C9. Extraction is deterministic and idempotent: whatever order \<open>list(set(urls))\<close>
  happens to have in two runs over the same content (\<open>ys1\<close>, \<open>ys2\<close>), sorting yields one
  and the same list, which has no duplicates, is in ascending order and holds exactly the
  matches of the pattern.
\<close>

theorem extraction_deterministic:
  assumes "ys1 \<in> set_listing (set (findall content))"
    and "ys2 \<in> set_listing (set (findall content))"
  shows "sort ys1 = sort ys2 \<and> sort ys1 = extract_urls content \<and>
         distinct (extract_urls content) \<and> sorted (extract_urls content) \<and>
         set (extract_urls content) = set (findall content)"
  using sort_listing [OF assms(1)] sort_listing [OF assms(2)]
  by (simp add: extract_urls_def)

theorem extraction_deterministic_witness:
  "[ustr ''http://b.example'', ustr ''https://a.example/x''] \<in> set_listing (set (findall demo_doc)) \<and>
   [ustr ''https://a.example/x'', ustr ''http://b.example''] \<in> set_listing (set (findall demo_doc)) \<and>
   sort [ustr ''http://b.example'', ustr ''https://a.example/x''] =
     sort [ustr ''https://a.example/x'', ustr ''http://b.example''] \<and>
   sort [ustr ''http://b.example'', ustr ''https://a.example/x''] = extract_urls demo_doc"
proof -
  have h1: "[ustr ''http://b.example'', ustr ''https://a.example/x''] \<in> set_listing (set (findall demo_doc))"
    by (simp add: set_listing_def findall_demo_doc) (auto simp: ustr_def)
  have h2: "[ustr ''https://a.example/x'', ustr ''http://b.example''] \<in> set_listing (set (findall demo_doc))"
    by (simp add: set_listing_def findall_demo_doc) (auto simp: ustr_def)
  note r = extraction_deterministic [OF h1 h2]
  from r have r1: "sort [ustr ''http://b.example'', ustr ''https://a.example/x''] =
      sort [ustr ''https://a.example/x'', ustr ''http://b.example'']"
    by (rule conjunct1)
  from r have r2: "sort [ustr ''http://b.example'', ustr ''https://a.example/x''] = extract_urls demo_doc"
    by (elim conjE)
  from h1 h2 r1 r2 show ?thesis by (intro conjI)
qed

text \<open>
  C10. For a readable document the list that \<open>extract_urls_from_file\<close> returns is in
  strictly ascending lexicographic order, and every element starts with \<open>http://\<close> or
  \<open>https://\<close> and contains no whitespace, no \<open>)\<close> and no \<open>]\<close>.
\<close>

theorem extracted_sorted_well_formed:
  assumes "read_file path = Content doc"
  shows "\<exists>urls. extract_urls_from_file read_file path = ([], Return urls) \<and>
           sorted_wrt (<) urls \<and>
           (\<forall>u\<in>set urls. (prefix (ustr ''http://'') u \<or> prefix (ustr ''https://'') u) \<and>
                          (\<forall>c\<in>set u. \<not> is_space c \<and> c \<noteq> 41 \<and> c \<noteq> 93))"
proof -
  have "sorted_wrt (<) (extract_urls doc)"
    by (simp add: extract_urls_def)
  moreover have "\<forall>u\<in>set (extract_urls doc). well_formed u"
    by (simp add: set_extract_urls findall_well_formed)
  ultimately show ?thesis
    using assms by (simp add: extract_urls_from_file_def well_formed_def)
qed

theorem extracted_sorted_well_formed_witness:
  "demo_read (ustr ''README.md'') = Content demo_doc \<and>
   (\<exists>urls. urls \<noteq> [] \<and>
      extract_urls_from_file demo_read (ustr ''README.md'') = ([], Return urls) \<and>
      sorted_wrt (<) urls \<and>
      (\<forall>u\<in>set urls. (prefix (ustr ''http://'') u \<or> prefix (ustr ''https://'') u) \<and>
                     (\<forall>c\<in>set u. \<not> is_space c \<and> c \<noteq> 41 \<and> c \<noteq> 93)))"
proof -
  have h: "demo_read (ustr ''README.md'') = Content demo_doc"
    by (simp add: demo_read_def)
  have v: "extract_urls_from_file demo_read (ustr ''README.md'') =
      ([], Return [ustr ''http://b.example'', ustr ''https://a.example/x''])"
    by (simp add: extract_urls_from_file_def h extract_demo_doc)
  from extracted_sorted_well_formed [of demo_read "ustr ''README.md''" demo_doc, OF h] v h show ?thesis
    by auto
qed

section \<open>The prober\<close>

lemma scenario_heads:
  "scenario_head (ustr ''https://good.example'') 10 = Response 200 (ustr ''OK'')"
  "scenario_head (ustr ''http://missing.example'') 10 = Response 404 (ustr ''Not Found'')"
  "scenario_head (ustr ''https://slow.example'') 10 = Raises (Timeout (ustr ''timed out''))"
  "scenario_head (ustr ''http://down.example'') 10 =
     Raises (RequestException (ustr ''Name or service not known''))"
  by (simp_all add: scenario_head_def ustr_def)

text \<open>
  C7. When \<open>requests.head\<close> raises \<open>requests.Timeout\<close>, whatever the address and the
  timeout, \<open>check_url_status\<close> returns the address with the code 408 and the reason
  \<open>Timeout\<close>.
\<close>

theorem timeout_outcome:
  "head url t = Raises (Timeout m) \<Longrightarrow>
     check_url_status head url t = Inr (url, 408, ustr ''Timeout'')"
  by (simp add: check_url_status_def)

theorem timeout_outcome_witness:
  "scenario_head (ustr ''https://slow.example'') 10 = Raises (Timeout (ustr ''timed out'')) \<and>
   check_url_status scenario_head (ustr ''https://slow.example'') 10 =
     Inr (ustr ''https://slow.example'', 408, ustr ''Timeout'')"
proof -
  have h: "scenario_head (ustr ''https://slow.example'') 10 = Raises (Timeout (ustr ''timed out''))"
    by (simp add: scenario_head_def ustr_def)
  from timeout_outcome [of scenario_head "ustr ''https://slow.example''" 10 "ustr ''timed out''", OF h] h
  show ?thesis by simp
qed

text \<open>
  C8, as the code has it. When \<open>requests.head\<close> raises another
  \<open>requests.RequestException\<close> (the transport failures), the outcome carries the code 0,
  and the reason is the text \<open>Connection Error: \<close>, then the first 50 characters of the
  description of the failure, then \<open>...\<close> (always, also when nothing was cut): 21
  characters more than the truncated description, hence up to 71.
\<close>

theorem transport_failure_outcome:
  "head url t = Raises (RequestException m) \<Longrightarrow>
     check_url_status head url t =
       Inr (url, 0, ustr ''Connection Error: '' @ take 50 m @ ustr ''...'') \<and>
     length (ustr ''Connection Error: '' @ take 50 m @ ustr ''...'') = 21 + min (length m) 50"
  by (simp add: check_url_status_def ustr_def)

theorem transport_failure_outcome_witness:
  "refusing_head (ustr ''http://a.example'') 10 =
     Raises (RequestException
       (ustr ''Failed to establish a new connection: [Errno 111] Connection refused'')) \<and>
   check_url_status refusing_head (ustr ''http://a.example'') 10 =
     Inr (ustr ''http://a.example'', 0,
          ustr ''Connection Error: '' @
          take 50 (ustr ''Failed to establish a new connection: [Errno 111] Connection refused'') @
          ustr ''...'')"
proof -
  have h: "refusing_head (ustr ''http://a.example'') 10 =
     Raises (RequestException
       (ustr ''Failed to establish a new connection: [Errno 111] Connection refused''))"
    by (simp add: refusing_head_def)
  from transport_failure_outcome [of refusing_head "ustr ''http://a.example''" 10, OF h] h
  show ?thesis by blast
qed

text \<open>
  C8 as stated (the reason is the description cut to 50 characters) fails: for a refused
  connection the reason is neither the truncated description nor within 50 characters.
\<close>

theorem transport_failure_reason_counterexample:
  "refusing_head (ustr ''http://a.example'') 10 =
     Raises (RequestException
       (ustr ''Failed to establish a new connection: [Errno 111] Connection refused'')) \<and>
   check_url_status refusing_head (ustr ''http://a.example'') 10 =
     Inr (ustr ''http://a.example'', 0,
          ustr ''Connection Error: Failed to establish a new connection: [Errno 111] ...'') \<and>
   ustr ''Connection Error: Failed to establish a new connection: [Errno 111] ...'' \<noteq>
     take 50 (ustr ''Failed to establish a new connection: [Errno 111] Connection refused'') \<and>
   length (ustr ''Connection Error: Failed to establish a new connection: [Errno 111] ...'') = 71"
  by (simp add: refusing_head_def check_url_status_def ustr_def)

text \<open>
  C2, as the code has it. \<open>check_url_status\<close> returns an outcome for the address whenever
  \<open>requests.head\<close> returns a response or raises an instance of
  \<open>requests.RequestException\<close> (\<open>requests.Timeout\<close> included); any other exception is
  caught by neither handler and leaves the function (main's own handler deals with it).
\<close>

theorem check_url_status_total_on_request_exceptions:
  "(head url t = Response c r \<or> (head url t = Raises e \<and> is_request_exception e) \<longrightarrow>
      (\<exists>code reason. check_url_status head url t = Inr (url, code, reason))) \<and>
   (head url t = Raises e \<and> \<not> is_request_exception e \<longrightarrow>
      check_url_status head url t = Inl e)"
  by (cases e) (auto simp: check_url_status_def is_request_exception_def)

theorem check_url_status_total_on_request_exceptions_witness:
  "scenario_head (ustr ''http://down.example'') 10 =
     Raises (RequestException (ustr ''Name or service not known'')) \<and>
   is_request_exception (RequestException (ustr ''Name or service not known'')) \<and>
   (\<exists>code reason. check_url_status scenario_head (ustr ''http://down.example'') 10 =
      Inr (ustr ''http://down.example'', code, reason)) \<and>
   faulty_head (ustr ''http://a.example'') 10 = Raises (OtherException (ustr ''unexpected'')) \<and>
   \<not> is_request_exception (OtherException (ustr ''unexpected'')) \<and>
   check_url_status faulty_head (ustr ''http://a.example'') 10 =
     Inl (OtherException (ustr ''unexpected''))"
proof -
  have a1: "is_request_exception (RequestException (ustr ''Name or service not known''))"
    by (simp add: is_request_exception_def)
  have b1: "faulty_head (ustr ''http://a.example'') 10 = Raises (OtherException (ustr ''unexpected''))"
    by (simp add: faulty_head_def)
  have b2: "\<not> is_request_exception (OtherException (ustr ''unexpected''))"
    by (simp add: is_request_exception_def)
  note a = check_url_status_total_on_request_exceptions
    [where head = scenario_head and url = "ustr ''http://down.example''" and t = 10
       and e = "RequestException (ustr ''Name or service not known'')", THEN conjunct1]
  note b = check_url_status_total_on_request_exceptions
    [where head = faulty_head and url = "ustr ''http://a.example''" and t = 10
       and e = "OtherException (ustr ''unexpected'')", THEN conjunct2]
  from a scenario_heads(4) a1
  have a3: "\<exists>code reason. check_url_status scenario_head (ustr ''http://down.example'') 10 =
      Inr (ustr ''http://down.example'', code, reason)"
    by blast
  from b b1 b2 have b3: "check_url_status faulty_head (ustr ''http://a.example'') 10 =
     Inl (OtherException (ustr ''unexpected''))"
    by blast
  from scenario_heads(4) a1 a3 b1 b2 b3 show ?thesis
    by (intro conjI)
qed

text \<open>
  C2 as stated (no exception ever reaches the caller) fails: an exception outside the
  \<open>requests\<close> hierarchy raised during the request comes out of \<open>check_url_status\<close>.
\<close>

theorem foreign_exception_counterexample:
  "check_url_status faulty_head (ustr ''http://a.example'') 10 =
     Inl (OtherException (ustr ''unexpected''))"
  by (simp add: check_url_status_def faulty_head_def)

section \<open>The loop over the completed futures\<close>

lemma length_as_completed: "length (as_completed order fs) = length fs"
  by (induction order fs rule: as_completed.induct) (auto simp: Let_def)

lemma mset_as_completed: "mset (as_completed order fs) = mset fs"
proof (induction order fs rule: as_completed.induct)
  case (3 k ks f fs)
  let ?xs = "f # fs"
  let ?i = "k mod length ?xs"
  have i: "?i < length ?xs" by simp
  have "mset ?xs = mset (take ?i ?xs @ ?xs ! ?i # drop (Suc ?i) ?xs)"
    using id_take_nth_drop [OF i] by simp
  then show ?case using 3 by (simp add: Let_def)
qed simp_all

lemma total_tally: "total (tally c s) = total s + 1"
  by (simp add: tally_def total_def)

lemma total_handle_future: "total (snd (handle_future fu st)) = total (snd st) + 1"
proof (cases fu; cases st)
  fix r url out s
  assume fu: "fu = (r, url)" and st: "st = (out, s)"
  show ?thesis
  proof (cases r)
    case (Inl e)
    then show ?thesis by (simp add: fu st handle_future_def total_def)
  next
    case (Inr outcome)
    then show ?thesis
      by (cases outcome) (simp add: fu st handle_future_def total_tally)
  qed
qed

lemma total_fold_handle_future:
  "total (snd (fold handle_future fs st)) = total (snd st) + int (length fs)"
  by (induction fs arbitrary: st) (simp_all add: total_handle_future)

lemma one_bucket:
  "snd (handle_future fu (out, s)) \<in> {s\<lparr>good := good s + 1\<rparr>, s\<lparr>bad := bad s + 1\<rparr>, s\<lparr>error := error s + 1\<rparr>}"
  by (cases fu) (auto simp: handle_future_def tally_def split: sum.splits prod.splits)

lemma main_finished:
  assumes "env_read e (filepath a) = Content doc" and "extract_urls doc \<noteq> []"
    and "0 < workers a"
  shows "main a e =
     (let urls = extract_urls doc;
          st = fold handle_future
                 (as_completed (env_order e)
                    (map (\<lambda>url. (check_url_status (env_head e) url 10, url)) urls))
                 ([], \<lparr>good = 0, bad = 0, error = 0\<rparr>)
      in \<lparr>stdout =
            (BLUE @ ustr ''--- Iniciando Verifica'' @ [231, 227] @ ustr ''o de Links para '' @
               [39] @ filepath a @ [39] @ ustr '' ---'' @ [10] @ RESET) #
            [ustr ''Encontrados '' @ str_int (int (length urls)) @
               ustr '' URLs '' @ [250] @ ustr ''nicos. Verificando...'' @ [10]] @
            fst st @ print_summary urls (snd st),
          requests_made = urls, status = Finished, final_summary = Some (snd st)\<rparr>)"
  using assms by (simp add: main_def extract_urls_from_file_def Let_def split: prod.splits)

lemma scenario_reads: "env_read scenario_env (filepath scenario_args) = Content scenario_doc"
  by (simp add: scenario_env_def scenario_args_def scenario_read_def)

lemma scenario_checks:
  "check_url_status scenario_head (ustr ''https://good.example'') 10 =
     Inr (ustr ''https://good.example'', 200, ustr ''OK'')"
  "check_url_status scenario_head (ustr ''http://missing.example'') 10 =
     Inr (ustr ''http://missing.example'', 404, ustr ''Client/Server Error'')"
  "check_url_status scenario_head (ustr ''https://slow.example'') 10 =
     Inr (ustr ''https://slow.example'', 408, ustr ''Timeout'')"
  by (simp_all add: check_url_status_def scenario_heads)

lemma scenario_run:
  "final_summary (main scenario_args scenario_env) = Some \<lparr>good = 1, bad = 2, error = 0\<rparr>"
proof -
  have e: "env_head scenario_env = scenario_head" "env_order scenario_env = [2, 0]"
    by (simp_all add: scenario_env_def)
  have w: "0 < workers scenario_args"
    by (simp add: scenario_args_def)
  have x: "extract_urls scenario_doc \<noteq> []"
    by (simp add: extract_scenario_doc)
  show ?thesis
    by (simp add: main_finished [OF scenario_reads x w] Let_def e extract_scenario_doc
        scenario_checks handle_future_def tally_def)
qed

text \<open>
  C3. One pass of the loop body moves exactly one bucket, by the kind of outcome: a
  response with a code from 200 up to 299 adds one to \<open>good\<close>; any other response code
  adds one to \<open>bad\<close>, and so does a timeout (code 408); a transport failure (code 0) adds
  one to \<open>error\<close>. The other two buckets are left as they were. A response code is the
  three-digit status of an HTTP response, so it is positive.
\<close>

theorem bucket_by_classification:
  "(head url t = Response c r \<and> 200 \<le> c \<and> c < 300 \<longrightarrow>
      snd (handle_future (check_url_status head url t, url) (out, s)) = s\<lparr>good := good s + 1\<rparr>) \<and>
   (head url t = Response c r \<and> 0 < c \<and> \<not> (200 \<le> c \<and> c < 300) \<longrightarrow>
      snd (handle_future (check_url_status head url t, url) (out, s)) = s\<lparr>bad := bad s + 1\<rparr>) \<and>
   (head url t = Raises (Timeout m) \<longrightarrow>
      snd (handle_future (check_url_status head url t, url) (out, s)) = s\<lparr>bad := bad s + 1\<rparr>) \<and>
   (head url t = Raises (RequestException m) \<longrightarrow>
      snd (handle_future (check_url_status head url t, url) (out, s)) = s\<lparr>error := error s + 1\<rparr>)"
  by (simp add: handle_future_def check_url_status_def tally_def)

theorem bucket_by_classification_witness:
  "scenario_head (ustr ''https://good.example'') 10 = Response 200 (ustr ''OK'') \<and>
   snd (handle_future (check_url_status scenario_head (ustr ''https://good.example'') 10,
                       ustr ''https://good.example'') ([], \<lparr>good = 0, bad = 0, error = 0\<rparr>)) =
     \<lparr>good = 1, bad = 0, error = 0\<rparr> \<and>
   scenario_head (ustr ''http://missing.example'') 10 = Response 404 (ustr ''Not Found'') \<and>
   snd (handle_future (check_url_status scenario_head (ustr ''http://missing.example'') 10,
                       ustr ''http://missing.example'') ([], \<lparr>good = 0, bad = 0, error = 0\<rparr>)) =
     \<lparr>good = 0, bad = 1, error = 0\<rparr> \<and>
   scenario_head (ustr ''https://slow.example'') 10 = Raises (Timeout (ustr ''timed out'')) \<and>
   snd (handle_future (check_url_status scenario_head (ustr ''https://slow.example'') 10,
                       ustr ''https://slow.example'') ([], \<lparr>good = 0, bad = 0, error = 0\<rparr>)) =
     \<lparr>good = 0, bad = 1, error = 0\<rparr> \<and>
   scenario_head (ustr ''http://down.example'') 10 =
     Raises (RequestException (ustr ''Name or service not known'')) \<and>
   snd (handle_future (check_url_status scenario_head (ustr ''http://down.example'') 10,
                       ustr ''http://down.example'') ([], \<lparr>good = 0, bad = 0, error = 0\<rparr>)) =
     \<lparr>good = 0, bad = 0, error = 1\<rparr>"
proof -
  let ?z = "\<lparr>good = 0, bad = 0, error = 0\<rparr>"
  note g = bucket_by_classification
    [where head = scenario_head and url = "ustr ''https://good.example''" and t = 10
       and c = 200 and r = "ustr ''OK''" and out = "[]" and s = ?z, THEN conjunct1]
  note m = bucket_by_classification
    [where head = scenario_head and url = "ustr ''http://missing.example''" and t = 10
       and c = 404 and r = "ustr ''Not Found''" and out = "[]" and s = ?z,
     THEN conjunct2, THEN conjunct1]
  note t = bucket_by_classification
    [where head = scenario_head and url = "ustr ''https://slow.example''" and t = 10
       and m = "ustr ''timed out''" and out = "[]" and s = ?z,
     THEN conjunct2, THEN conjunct2, THEN conjunct1]
  note d = bucket_by_classification
    [where head = scenario_head and url = "ustr ''http://down.example''" and t = 10
       and m = "ustr ''Name or service not known''" and out = "[]" and s = ?z,
     THEN conjunct2, THEN conjunct2, THEN conjunct2]
  from g m t d scenario_heads show ?thesis
    by simp
qed

text \<open>
  C1. In a run that found at least one address (with a pool of at least one worker), the
  addresses are distinct, every one of them has exactly one future among those the loop
  consumes, every pass of the loop body adds one to exactly one bucket (also when the task
  raised), after \<open>k\<close> passes the three buckets add up to \<open>k\<close>, and the summary printed
  at the end adds up to the number of addresses.
\<close>

theorem summary_counts_every_address:
  assumes "env_read e (filepath a) = Content doc" and "extract_urls doc \<noteq> []"
    and "0 < workers a"
  shows "let urls = extract_urls doc;
             completed = as_completed (env_order e)
                           (map (\<lambda>url. (check_url_status (env_head e) url 10, url)) urls)
         in distinct urls \<and> mset (map snd completed) = mset urls \<and>
            (\<forall>k\<le>length urls.
               total (snd (fold handle_future (take k completed)
                             ([], \<lparr>good = 0, bad = 0, error = 0\<rparr>))) = int k) \<and>
            (\<forall>fu out s. snd (handle_future fu (out, s)) \<in>
               {s\<lparr>good := good s + 1\<rparr>, s\<lparr>bad := bad s + 1\<rparr>, s\<lparr>error := error s + 1\<rparr>}) \<and>
            status (main a e) = Finished \<and>
            (\<exists>s. final_summary (main a e) = Some s \<and>
                 s = snd (fold handle_future completed ([], \<lparr>good = 0, bad = 0, error = 0\<rparr>)) \<and>
                 good s + bad s + error s = int (length urls))"
proof -
  let ?urls = "extract_urls doc"
  let ?completed = "as_completed (env_order e)
                           (map (\<lambda>url. (check_url_status (env_head e) url 10, url)) ?urls)"
  let ?zero = "\<lparr>good = 0, bad = 0, error = 0\<rparr>"
  have d: "distinct ?urls"
    by (simp add: extract_urls_def)
  have len: "length ?completed = length ?urls"
    by (simp add: length_as_completed)
  have "map snd (map (\<lambda>url. (check_url_status (env_head e) url 10, url)) ?urls) = ?urls"
    by (simp add: comp_def)
  moreover have "mset (map snd ?completed) =
      mset (map snd (map (\<lambda>url. (check_url_status (env_head e) url 10, url)) ?urls))"
    by (simp only: mset_map mset_as_completed)
  ultimately have m: "mset (map snd ?completed) = mset ?urls"
    by (simp only:)
  have z: "total ?zero = 0"
    by (simp add: total_def)
  have p: "\<forall>k\<le>length ?urls. total (snd (fold handle_future (take k ?completed) ([], ?zero))) = int k"
  proof (intro allI impI)
    fix k assume "k \<le> length ?urls"
    then have "length (take k ?completed) = k"
      using len by simp
    then show "total (snd (fold handle_future (take k ?completed) ([], ?zero))) = int k"
      using z by (simp only: total_fold_handle_future snd_conv)
  qed
  have "total (snd (fold handle_future ?completed ([], ?zero))) = int (length ?urls)"
    using len z by (simp only: total_fold_handle_future snd_conv)
  then have fin: "good (snd (fold handle_future ?completed ([], ?zero))) +
      bad (snd (fold handle_future ?completed ([], ?zero))) +
      error (snd (fold handle_future ?completed ([], ?zero))) = int (length ?urls)"
    by (simp only: total_def)
  have st: "status (main a e) = Finished"
    using main_finished [OF assms] by (simp add: Let_def)
  have fs: "final_summary (main a e) = Some (snd (fold handle_future ?completed ([], ?zero)))"
    using main_finished [OF assms] by (simp add: Let_def)
  show ?thesis
    unfolding Let_def
    using d m p fin st fs one_bucket by blast
qed

theorem summary_counts_every_address_witness:
  "env_read scenario_env (filepath scenario_args) = Content scenario_doc \<and>
   extract_urls scenario_doc \<noteq> [] \<and> 0 < workers scenario_args \<and>
   status (main scenario_args scenario_env) = Finished \<and>
   (\<exists>s. final_summary (main scenario_args scenario_env) = Some s \<and>
        good s + bad s + error s = 3) \<and>
   final_summary (main scenario_args scenario_env) = Some \<lparr>good = 1, bad = 2, error = 0\<rparr>"
proof -
  have h2: "extract_urls scenario_doc \<noteq> []"
    by (simp add: extract_scenario_doc)
  have h3: "0 < workers scenario_args"
    by (simp add: scenario_args_def)
  have n: "int (length (extract_urls scenario_doc)) = 3"
    by (simp add: extract_scenario_doc)
  note r = summary_counts_every_address [OF scenario_reads h2 h3, unfolded Let_def]
  note t = r [THEN conjunct2, THEN conjunct2, THEN conjunct2, THEN conjunct2]
  from t have st: "status (main scenario_args scenario_env) = Finished"
    by (rule conjunct1)
  from t obtain s where s: "final_summary (main scenario_args scenario_env) = Some s"
    and "good s + bad s + error s = int (length (extract_urls scenario_doc))"
    by (elim conjE exE)
  then have "good s + bad s + error s = 3"
    using n by (simp only:)
  with s have "\<exists>s. final_summary (main scenario_args scenario_env) = Some s \<and>
        good s + bad s + error s = 3"
    by (intro exI conjI)
  with scenario_reads h2 h3 st scenario_run show ?thesis
    by (intro conjI)
qed

section \<open>How the process ends\<close>

text \<open>
  C5. When the document cannot be read (no such file, or any other failure while opening
  or reading it), the process prints an error message and exits with status 1; no request
  was made and no summary exists.
\<close>

theorem unreadable_document_exits:
  assumes "\<forall>content. env_read e (filepath a) \<noteq> Content content"
  shows "status (main a e) = Exited 1 \<and> exit_status (status (main a e)) \<noteq> 0 \<and>
         requests_made (main a e) = [] \<and> final_summary (main a e) = None \<and>
         length (stdout (main a e)) = 2 \<and>
         (\<exists>msg. last (stdout (main a e)) = RED @ ustr ''Erro'' @ msg @ RESET)"
proof (cases "env_read e (filepath a)")
  case (Content content)
  with assms show ?thesis by simp
next
  case FileNotFound
  have "ustr ''Erro: O arquivo '' = ustr ''Erro'' @ ustr '': O arquivo ''"
    by (simp add: ustr_def)
  then show ?thesis
    using FileNotFound by (simp add: main_def extract_urls_from_file_def)
next
  case (ReadFailure m)
  have "ustr ''Erro ao ler o arquivo: '' = ustr ''Erro'' @ ustr '' ao ler o arquivo: ''"
    by (simp add: ustr_def)
  then show ?thesis
    using ReadFailure by (simp add: main_def extract_urls_from_file_def)
qed

theorem unreadable_document_exits_witness:
  "env_read scenario_env (filepath \<lparr>filepath = ustr ''gone.md'', workers = 10\<rparr>) = FileNotFound \<and>
   status (main \<lparr>filepath = ustr ''gone.md'', workers = 10\<rparr> scenario_env) = Exited 1 \<and>
   requests_made (main \<lparr>filepath = ustr ''gone.md'', workers = 10\<rparr> scenario_env) = [] \<and>
   env_read scenario_env (filepath \<lparr>filepath = ustr ''docs'', workers = 10\<rparr>) =
     ReadFailure (ustr ''[Errno 21] Is a directory'') \<and>
   status (main \<lparr>filepath = ustr ''docs'', workers = 10\<rparr> scenario_env) = Exited 1 \<and>
   requests_made (main \<lparr>filepath = ustr ''docs'', workers = 10\<rparr> scenario_env) = []"
proof -
  have h1: "env_read scenario_env (filepath \<lparr>filepath = ustr ''gone.md'', workers = 10\<rparr>) = FileNotFound"
    by (simp add: scenario_env_def scenario_read_def ustr_def)
  have h2: "env_read scenario_env (filepath \<lparr>filepath = ustr ''docs'', workers = 10\<rparr>) =
     ReadFailure (ustr ''[Errno 21] Is a directory'')"
    by (simp add: scenario_env_def scenario_read_def) (simp add: ustr_def)
  from h1 have n1: "\<forall>content. env_read scenario_env (filepath \<lparr>filepath = ustr ''gone.md'', workers = 10\<rparr>) \<noteq> Content content"
    by simp
  from h2 have n2: "\<forall>content. env_read scenario_env (filepath \<lparr>filepath = ustr ''docs'', workers = 10\<rparr>) \<noteq> Content content"
    by simp
  from unreadable_document_exits [OF n1] unreadable_document_exits [OF n2] h1 h2
  show ?thesis by blast
qed

text \<open>
  C6. When a readable document holds no address, the process prints that no URL was found
  and exits with status 0; no request was made, and nothing but the banner and that notice
  was printed.
\<close>

theorem no_urls_exits_successfully:
  assumes "env_read e (filepath a) = Content doc" and "extract_urls doc = []"
  shows "status (main a e) = Exited 0 \<and> exit_status (status (main a e)) = 0 \<and>
         requests_made (main a e) = [] \<and> final_summary (main a e) = None \<and>
         length (stdout (main a e)) = 2 \<and>
         last (stdout (main a e)) = YELLOW @ ustr ''Nenhum URL encontrado no arquivo.'' @ RESET"
  using assms by (simp add: main_def extract_urls_from_file_def)

theorem no_urls_exits_successfully_witness:
  "env_read scenario_env (filepath \<lparr>filepath = ustr ''empty.md'', workers = 10\<rparr>) =
     Content (ustr ''no links here'') \<and>
   extract_urls (ustr ''no links here'') = [] \<and>
   status (main \<lparr>filepath = ustr ''empty.md'', workers = 10\<rparr> scenario_env) = Exited 0 \<and>
   requests_made (main \<lparr>filepath = ustr ''empty.md'', workers = 10\<rparr> scenario_env) = [] \<and>
   last (stdout (main \<lparr>filepath = ustr ''empty.md'', workers = 10\<rparr> scenario_env)) =
     YELLOW @ ustr ''Nenhum URL encontrado no arquivo.'' @ RESET"
proof -
  have h: "env_read scenario_env (filepath \<lparr>filepath = ustr ''empty.md'', workers = 10\<rparr>) =
     Content (ustr ''no links here'')"
    by (simp add: scenario_env_def scenario_read_def) (simp add: ustr_def)
  from no_urls_exits_successfully [OF h extract_no_links] h extract_no_links
  show ?thesis by blast
qed

text \<open>
  C4, as the code has it. main never checks \<open>workers\<close>. With a value of zero or below no
  request is made; when at least one address was found, the constructor of the pool raises
  \<open>ValueError\<close>, which nothing catches, after the file was read and the number of
  addresses printed; when the document is unreadable or holds no address, the run is the
  very run of a positive value.
\<close>

theorem workers_not_validated:
  assumes "workers a \<le> 0"
  shows "requests_made (main a e) = [] \<and> final_summary (main a e) = None \<and>
         (env_read e (filepath a) = Content doc \<and> extract_urls doc \<noteq> [] \<longrightarrow>
            status (main a e) = Crashed (ValueError (ustr ''max_workers must be greater than 0'')) \<and>
            length (stdout (main a e)) = 2) \<and>
         ((\<forall>content. env_read e (filepath a) = Content content \<longrightarrow> extract_urls content = []) \<longrightarrow>
            main a e = main (a\<lparr>workers := 10\<rparr>) e)"
  using assms
  by (cases "env_read e (filepath a)") (simp_all add: main_def extract_urls_from_file_def Let_def)

theorem workers_not_validated_witness:
  "workers \<lparr>filepath = ustr ''links.md'', workers = - 3\<rparr> \<le> 0 \<and>
   env_read scenario_env (filepath \<lparr>filepath = ustr ''links.md'', workers = - 3\<rparr>) =
     Content scenario_doc \<and>
   extract_urls scenario_doc \<noteq> [] \<and>
   status (main \<lparr>filepath = ustr ''links.md'', workers = - 3\<rparr> scenario_env) =
     Crashed (ValueError (ustr ''max_workers must be greater than 0'')) \<and>
   requests_made (main \<lparr>filepath = ustr ''links.md'', workers = - 3\<rparr> scenario_env) = [] \<and>
   workers \<lparr>filepath = ustr ''gone.md'', workers = 0\<rparr> \<le> 0 \<and>
   env_read scenario_env (filepath \<lparr>filepath = ustr ''gone.md'', workers = 0\<rparr>) =
     FileNotFound \<and>
   main \<lparr>filepath = ustr ''gone.md'', workers = 0\<rparr> scenario_env =
     main (\<lparr>filepath = ustr ''gone.md'', workers = 0\<rparr>\<lparr>workers := 10\<rparr>) scenario_env"
proof -
  let ?a = "\<lparr>filepath = ustr ''links.md'', workers = - 3\<rparr>"
  let ?b = "\<lparr>filepath = ustr ''gone.md'', workers = 0\<rparr>"
  have h1: "workers ?a \<le> 0" by simp
  have h2: "env_read scenario_env (filepath ?a) = Content scenario_doc"
    by (simp add: scenario_env_def scenario_read_def)
  have h3: "extract_urls scenario_doc \<noteq> []"
    by (simp add: extract_scenario_doc)
  have k1: "workers ?b \<le> 0" by simp
  have k2: "env_read scenario_env (filepath ?b) = FileNotFound"
    by (simp add: scenario_env_def scenario_read_def ustr_def)
  then have k3: "\<forall>content. env_read scenario_env (filepath ?b) = Content content \<longrightarrow>
      extract_urls content = []"
    by simp
  note ra = workers_not_validated [OF h1, of scenario_env scenario_doc]
  note rb = workers_not_validated [OF k1, of scenario_env scenario_doc]
  from ra h2 h3 have a1: "status (main ?a scenario_env) =
      Crashed (ValueError (ustr ''max_workers must be greater than 0''))"
    by blast
  from ra have a2: "requests_made (main ?a scenario_env) = []"
    by (rule conjunct1)
  from rb k3 have b1: "main ?b scenario_env = main (?b\<lparr>workers := 10\<rparr>) scenario_env"
    by blast
  from h1 h2 h3 a1 a2 k1 k2 b1 show ?thesis
    by (intro conjI)
qed

text \<open>
  C4 as stated (zero is rejected before the run) fails: with \<open>workers = 0\<close> and a
  document without addresses the process exits with status 0, exactly as with 10 workers.
\<close>

theorem workers_not_validated_counterexample:
  "workers \<lparr>filepath = ustr ''empty.md'', workers = 0\<rparr> = 0 \<and>
   status (main \<lparr>filepath = ustr ''empty.md'', workers = 0\<rparr> scenario_env) = Exited 0 \<and>
   main \<lparr>filepath = ustr ''empty.md'', workers = 0\<rparr> scenario_env =
     main \<lparr>filepath = ustr ''empty.md'', workers = 10\<rparr> scenario_env"
proof -
  have h: "env_read scenario_env (ustr ''empty.md'') = Content (ustr ''no links here'')"
    by (simp add: scenario_env_def scenario_read_def) (simp add: ustr_def)
  show ?thesis
    by (simp add: main_def extract_urls_from_file_def h extract_no_links)
qed

end
